theory Spec2Isabelle
  imports Main "HOL-Library.Multiset"
begin

section \<open>JavaScript values, objects and strings\<close>

text \<open>
  The values that flow through the helpers and the Job model are JavaScript primitives.
  Numbers are IEEE doubles in the program; the development never computes with them, so
  the carrier of numbers is the type parameter \<open>'n\<close> and the built-ins that produce
  numbers (\<open>parseFloat\<close>, \<open>parseInt\<close>) are parameters of the functions that call them.
\<close>

datatype 'n jsval = JUndefined | JNull | JBool bool | JNum 'n | JStr string

text \<open>
  An object literal or a parsed JSON body: its own enumerable string-keyed properties, in
  the order in which they were created. A well-formed object has distinct keys.
\<close>

type_synonym 'n js_object = "(string \<times> 'n jsval) list"

text \<open>
  The errors of \<open>expressError\<close> that the code raises, a \<open>TypeError\<close> for a property read
  on \<open>undefined\<close>, and a failure raised by the store client itself, with the client's
  text. The message \<open>Duplicate_job t c\<close> stands for the template
  \<open>Duplicate job: ${t} already exists for company: ${c}\<close> and \<open>No_job i\<close> for
  \<open>No job: ${i}\<close>.
\<close>

datatype 'n message = Text string | Duplicate_job "'n jsval" "'n jsval" | No_job "'n jsval"

datatype 'n error =
    BadRequestError "'n message"
  | NotFoundError "'n message"
  | TypeError
  | StoreError string

subsection \<open>Decimal rendering of array lengths and indices\<close>

definition digit_char :: "nat \<Rightarrow> char" where
  "digit_char d = ''0123456789'' ! d"

fun string_of_nat :: "nat \<Rightarrow> string" where
  "string_of_nat n =
     (if n < 10 then [digit_char n]
      else string_of_nat (n div 10) @ [digit_char (n mod 10)])"

declare string_of_nat.simps [simp del]

definition digit_value :: "char \<Rightarrow> nat" where
  "digit_value c = length (takeWhile (\<lambda>d. d \<noteq> c) ''0123456789'')"

definition decimal_value :: "string \<Rightarrow> nat" where
  "decimal_value s = foldl (\<lambda>n c. 10 * n + digit_value c) 0 s"

subsection \<open>Own property keys\<close>

text \<open>
  \<open>Object.keys\<close> and \<open>Object.values\<close> enumerate the own properties in the order of
  OrdinaryOwnPropertyKeys: first the keys that are array indices (the canonical decimal
  strings of the integers below \<open>2^32 - 1\<close>) in ascending numeric order, then every other
  string key in creation order.
\<close>

definition is_array_index :: "string \<Rightarrow> bool" where
  "is_array_index s =
     (string_of_nat (decimal_value s) = s \<and> int (decimal_value s) < 4294967295)"

definition own_entries :: "'n js_object \<Rightarrow> (string \<times> 'n jsval) list" where
  "own_entries obj =
     sort_key (\<lambda>p. decimal_value (fst p)) (filter (\<lambda>p. is_array_index (fst p)) obj)
     @ filter (\<lambda>p. \<not> is_array_index (fst p)) obj"

definition Object_keys :: "'n js_object \<Rightarrow> string list" where
  "Object_keys obj = map fst (own_entries obj)"

definition Object_values :: "'n js_object \<Rightarrow> 'n jsval list" where
  "Object_values obj = map snd (own_entries obj)"

subsection \<open>Array helpers\<close>

text \<open>\<open>Array.prototype.map\<close> with the element and its index, counting from \<open>i\<close>.\<close>

fun Array_map :: "('a \<Rightarrow> nat \<Rightarrow> 'b) \<Rightarrow> nat \<Rightarrow> 'a list \<Rightarrow> 'b list" where
  "Array_map f i [] = []"
| "Array_map f i (x # xs) = f x i # Array_map f (Suc i) xs"

text \<open>\<open>Array.prototype.join\<close> on an array of strings.\<close>

fun join :: "string \<Rightarrow> string list \<Rightarrow> string" where
  "join sep [] = []"
| "join sep [x] = x"
| "join sep (x # y # ys) = x @ sep @ join sep (y # ys)"

section \<open>helpers/sql.js\<close>

text \<open>
  The field mapper \<open>jsToSql\<close> is an object literal; it is modelled by its own entries, a
  map from a public field name to a column name, and its prototype is \<open>Object.prototype\<close>.
  The builder reads it only through \<open>jsToSql[colName]\<close>, an ordinary property read: an own
  entry answers first, and a name the mapper does not have is answered by
  \<open>Object.prototype\<close> when it is one of that object's twelve properties. These are eleven
  built-in functions and the accessor \<open>__proto__\<close>, which returns the prototype object;
  all twelve are truthy. Inside the template literal a built-in function is rendered as
  Node prints it, \<open>function name() { [native code] }\<close>, and the prototype object as
  \<open>[object Object]\<close>.
\<close>

definition Object_prototype_text :: "string \<rightharpoonup> string" where
  "Object_prototype_text =
     [''constructor'' \<mapsto> ''function Object() { [native code] }'',
      ''__defineGetter__'' \<mapsto> ''function __defineGetter__() { [native code] }'',
      ''__defineSetter__'' \<mapsto> ''function __defineSetter__() { [native code] }'',
      ''hasOwnProperty'' \<mapsto> ''function hasOwnProperty() { [native code] }'',
      ''__lookupGetter__'' \<mapsto> ''function __lookupGetter__() { [native code] }'',
      ''__lookupSetter__'' \<mapsto> ''function __lookupSetter__() { [native code] }'',
      ''isPrototypeOf'' \<mapsto> ''function isPrototypeOf() { [native code] }'',
      ''propertyIsEnumerable'' \<mapsto> ''function propertyIsEnumerable() { [native code] }'',
      ''toString'' \<mapsto> ''function toString() { [native code] }'',
      ''valueOf'' \<mapsto> ''function valueOf() { [native code] }'',
      ''__proto__'' \<mapsto> ''[object Object]'',
      ''toLocaleString'' \<mapsto> ''function toLocaleString() { [native code] }'']"

text \<open>
  \<open>jsToSql[colName] || colName\<close>, as the template literal renders it. The right operand
  is taken when the left one is falsy: when neither the mapper nor \<open>Object.prototype\<close> has
  the name, and when the mapper's own entry is the empty string.
\<close>

definition columnName :: "(string \<rightharpoonup> string) \<Rightarrow> string \<Rightarrow> string" where
  "columnName jsToSql colName =
     (case jsToSql colName of
        Some c \<Rightarrow> if c = [] then colName else c
      | None \<Rightarrow>
          (case Object_prototype_text colName of
             Some inherited \<Rightarrow> inherited
           | None \<Rightarrow> colName))"

record 'n partial_update =
  setCols :: string
  values' :: "'n jsval list"

definition sqlCols :: "'n js_object \<Rightarrow> (string \<rightharpoonup> string) \<Rightarrow> string list" where
  "sqlCols dataToUpdate jsToSql =
     Array_map (\<lambda>colName idx. ''\"'' @ columnName jsToSql colName @ ''\"=$'' @ string_of_nat (idx + 1))
       0 (Object_keys dataToUpdate)"

definition sqlForPartialUpdate ::
  "'n js_object \<Rightarrow> (string \<rightharpoonup> string) \<Rightarrow> 'n error + 'n partial_update" where
  "sqlForPartialUpdate dataToUpdate jsToSql =
     (let keys = Object_keys dataToUpdate in
      if length keys = 0 then Inl (BadRequestError (Text ''No data''))
      else Inr \<lparr>setCols = join '', '' (sqlCols dataToUpdate jsToSql),
                values' = Object_values dataToUpdate\<rparr>)"

text \<open>
  The Field Mapper contract in the words of the specification: the mapped column name if
  a mapping exists, otherwise the public field name unchanged.
\<close>

definition spec_fieldMapper :: "(string \<rightharpoonup> string) \<Rightarrow> string \<Rightarrow> string" where
  "spec_fieldMapper mapping name = (case mapping name of Some c \<Rightarrow> c | None \<Rightarrow> name)"

section \<open>models/job.js\<close>

subsection \<open>Job objects, filters and the store client\<close>

text \<open>
  A job-shaped object: the argument of \<open>Job.create\<close> and a row of the store client's
  result. A property that the object does not have reads as \<open>JUndefined\<close>.
\<close>

record 'n job =
  id' :: "'n jsval"
  title :: "'n jsval"
  salary :: "'n jsval"
  equity :: "'n jsval"
  company_handle :: "'n jsval"

text \<open>
  The optional filter criteria of \<open>Job.findAll\<close>. An absent criterion is \<open>undefined\<close>:
  \<open>None\<close> for the two text criteria, \<open>JUndefined\<close> for the other two.
\<close>

record 'n job_filter =
  title :: "string option"
  minSalary :: "'n jsval"
  hasEquity :: "'n jsval"
  companyHandle :: "string option"

text \<open>
  \<open>db.query(text, params)\<close>: the store client, a collaborator outside the repository. It
  is a parameter of every model function: from the statement text, the positional
  parameters and the store's state it gives the rows of the result, or a failure, and
  the store's new state.
\<close>

type_synonym ('n, 's) db = "string \<Rightarrow> 'n jsval list \<Rightarrow> 's \<Rightarrow> (string + 'n job list) \<times> 's"

text \<open>
  The normalisation applied to a row before it is returned:
  \<open>if (job.equity !== null) job.equity = parseFloat(job.equity)\<close>.
\<close>

definition equity_parseFloat :: "('n jsval \<Rightarrow> 'n) \<Rightarrow> 'n job \<Rightarrow> 'n job" where
  "equity_parseFloat parseFloat job =
     (if equity job \<noteq> JNull then job\<lparr>equity := JNum (parseFloat (equity job))\<rparr> else job)"

subsection \<open>create\<close>

definition duplicateCheck_sql :: string where
  "duplicateCheck_sql =
      ''SELECT title \<newline>'' @
      ''       FROM jobs \<newline>'' @
      ''       WHERE title = $1 AND company_handle = $2''"

definition insert_sql :: string where
  "insert_sql =
      ''INSERT INTO jobs (title, salary, equity, company_handle)\<newline>'' @
      ''       VALUES ($1, $2, $3, $4)\<newline>'' @
      ''       RETURNING id, title, salary, equity, company_handle''"

definition Job_create ::
  "('n jsval \<Rightarrow> 'n) \<Rightarrow> ('n, 's) db \<Rightarrow> 'n job \<Rightarrow> 's \<Rightarrow> ('n error + 'n job) \<times> 's" where
  "Job_create parseFloat db data st =
     (case db duplicateCheck_sql [job.title data, company_handle data] st of
        (Inl e, st1) \<Rightarrow> (Inl (StoreError e), st1)
      | (Inr duplicateCheck, st1) \<Rightarrow>
          if duplicateCheck \<noteq> [] then
            (Inl (BadRequestError (Duplicate_job (job.title data) (company_handle data))), st1)
          else
            (case db insert_sql [job.title data, salary data, equity data, company_handle data] st1 of
               (Inl e, st2) \<Rightarrow> (Inl (StoreError e), st2)
             | (Inr [], st2) \<Rightarrow> (Inl TypeError, st2)
             | (Inr (job # _), st2) \<Rightarrow> (Inr (equity_parseFloat parseFloat job), st2)))"

subsection \<open>findAll\<close>

text \<open>
  The two arrays that \<open>findAll\<close> fills, \<open>whereExpressions\<close> and \<open>queryValues\<close>, after the
  four tests. \<open>if (title)\<close> and \<open>if (companyHandle)\<close> hold for a non-empty string.
\<close>

definition findAll_where :: "'n job_filter \<Rightarrow> string list \<times> 'n jsval list" where
  "findAll_where f =
     (let whereExpressions = []; queryValues = [];
          (whereExpressions, queryValues) =
            (case job_filter.title f of
               Some t \<Rightarrow>
                 if t \<noteq> [] then
                   (let queryValues = queryValues @ [JStr (''%'' @ t @ ''%'')] in
                    (whereExpressions @ [''title ILIKE $'' @ string_of_nat (length queryValues)],
                     queryValues))
                 else (whereExpressions, queryValues)
             | None \<Rightarrow> (whereExpressions, queryValues));
          (whereExpressions, queryValues) =
            (if minSalary f \<noteq> JUndefined then
               (let queryValues = queryValues @ [minSalary f] in
                (whereExpressions @ [''salary >= $'' @ string_of_nat (length queryValues)],
                 queryValues))
             else (whereExpressions, queryValues));
          whereExpressions =
            (if hasEquity f = JBool True then whereExpressions @ [''equity > 0'']
             else whereExpressions);
          (whereExpressions, queryValues) =
            (case companyHandle f of
               Some c \<Rightarrow>
                 if c \<noteq> [] then
                   (let queryValues = queryValues @ [JStr c] in
                    (whereExpressions @ [''company_handle = $'' @ string_of_nat (length queryValues)],
                     queryValues))
                 else (whereExpressions, queryValues)
             | None \<Rightarrow> (whereExpressions, queryValues))
      in (whereExpressions, queryValues))"

definition findAll_select :: string where
  "findAll_select =
      ''SELECT id, title, salary, equity, company_handle\<newline>'' @
      ''                 FROM jobs''"

definition findAll_query :: "'n job_filter \<Rightarrow> string" where
  "findAll_query f =
     (let query = findAll_select;
          whereExpressions = fst (findAll_where f);
          query = (if length whereExpressions > 0
                   then query @ '' WHERE '' @ join '' AND '' whereExpressions
                   else query)
      in query @ '' ORDER BY title'')"

definition Job_findAll ::
  "('n jsval \<Rightarrow> 'n) \<Rightarrow> ('n, 's) db \<Rightarrow> 'n job_filter \<Rightarrow> 's \<Rightarrow> ('n error + 'n job list) \<times> 's" where
  "Job_findAll parseFloat db f st =
     (case db (findAll_query f) (snd (findAll_where f)) st of
        (Inl e, st1) \<Rightarrow> (Inl (StoreError e), st1)
      | (Inr rows, st1) \<Rightarrow> (Inr (map (equity_parseFloat parseFloat) rows), st1))"

text \<open>\<open>Job.findAll()\<close> and \<open>Job.findAll({})\<close>: every criterion is \<open>undefined\<close>.\<close>

definition no_filter :: "'n job_filter" where
  "no_filter = \<lparr>title = None, minSalary = JUndefined, hasEquity = JUndefined, companyHandle = None\<rparr>"

subsection \<open>get\<close>

definition get_sql :: string where
  "get_sql =
      ''SELECT id, title, salary, equity, company_handle\<newline>'' @
      ''       FROM jobs\<newline>'' @
      ''       WHERE id = $1''"

definition Job_get ::
  "('n jsval \<Rightarrow> 'n) \<Rightarrow> ('n, 's) db \<Rightarrow> 'n jsval \<Rightarrow> 's \<Rightarrow> ('n error + 'n job) \<times> 's" where
  "Job_get parseFloat db job_id st =
     (case db get_sql [job_id] st of
        (Inl e, st1) \<Rightarrow> (Inl (StoreError e), st1)
      | (Inr [], st1) \<Rightarrow> (Inl (NotFoundError (No_job job_id)), st1)
      | (Inr (job # _), st1) \<Rightarrow> (Inr (equity_parseFloat parseFloat job), st1))"

subsection \<open>update\<close>

text \<open>
  The mapper literal of \<open>update\<close>: its own entries. Like every mapper it is read through
  \<open>columnName\<close>, which also answers the names it inherits.
\<close>

definition update_jsToSql :: "string \<rightharpoonup> string" where
  "update_jsToSql = [''title'' \<mapsto> ''title'', ''salary'' \<mapsto> ''salary'', ''equity'' \<mapsto> ''equity'']"

definition update_querySql :: "string \<Rightarrow> string \<Rightarrow> string" where
  "update_querySql set_cols jobIdIdx =
      ''UPDATE jobs \<newline>'' @
      ''                      SET '' @ set_cols @ '' \<newline>'' @
      ''                      WHERE id = '' @ jobIdIdx @ '' \<newline>'' @
      ''                      RETURNING id, title, salary, equity, company_handle''"

definition Job_update ::
  "('n jsval \<Rightarrow> 'n) \<Rightarrow> ('n, 's) db \<Rightarrow> 'n jsval \<Rightarrow> 'n js_object \<Rightarrow> 's \<Rightarrow> ('n error + 'n job) \<times> 's" where
  "Job_update parseFloat db job_id data st =
     (case sqlForPartialUpdate data update_jsToSql of
        Inl e \<Rightarrow> (Inl e, st)
      | Inr r \<Rightarrow>
          (let jobIdIdx = ''$'' @ string_of_nat (length (values' r) + 1);
               querySql = update_querySql (setCols r) jobIdIdx
           in case db querySql (values' r @ [job_id]) st of
                (Inl e, st1) \<Rightarrow> (Inl (StoreError e), st1)
              | (Inr [], st1) \<Rightarrow> (Inl (NotFoundError (No_job job_id)), st1)
              | (Inr (job # _), st1) \<Rightarrow> (Inr (equity_parseFloat parseFloat job), st1)))"

subsection \<open>remove\<close>

definition delete_sql :: string where
  "delete_sql =
      ''DELETE FROM jobs \<newline>'' @
      ''       WHERE id = $1 \<newline>'' @
      ''       RETURNING id''"

definition Job_remove :: "('n, 's) db \<Rightarrow> 'n jsval \<Rightarrow> 's \<Rightarrow> ('n error + unit) \<times> 's" where
  "Job_remove db job_id st =
     (case db delete_sql [job_id] st of
        (Inl e, st1) \<Rightarrow> (Inl (StoreError e), st1)
      | (Inr [], st1) \<Rightarrow> (Inl (NotFoundError (No_job job_id)), st1)
      | (Inr (_ # _), st1) \<Rightarrow> (Inr (), st1))"

subsection \<open>Counting criteria\<close>

text \<open>
  The value of a text criterion that passes \<open>if (title)\<close> or \<open>if (companyHandle)\<close>: a list
  with the string when it is present and non-empty, the empty list otherwise.
\<close>

definition truthy_text :: "string option \<Rightarrow> string list" where
  "truthy_text x = (case x of Some t \<Rightarrow> if t \<noteq> [] then [t] else [] | None \<Rightarrow> [])"

text \<open>The number of criteria that are present, that is, not \<open>undefined\<close>.\<close>

definition criteria_present :: "'n job_filter \<Rightarrow> nat" where
  "criteria_present f =
     (if job_filter.title f \<noteq> None then 1 else 0)
     + (if minSalary f \<noteq> JUndefined then 1 else 0)
     + (if hasEquity f \<noteq> JUndefined then 1 else 0)
     + (if companyHandle f \<noteq> None then 1 else 0)"

text \<open>The number of criteria that pass the test \<open>findAll\<close> makes for them.\<close>

definition criteria_effective :: "'n job_filter \<Rightarrow> nat" where
  "criteria_effective f =
     length (truthy_text (job_filter.title f))
     + (if minSalary f \<noteq> JUndefined then 1 else 0)
     + (if hasEquity f = JBool True then 1 else 0)
     + length (truthy_text (companyHandle f))"

section \<open>routes/jobs.js\<close>

text \<open>
  The filters that \<open>GET /jobs\<close> builds from the query string before it calls
  \<open>Job.findAll\<close>; \<open>req.query\<close> maps a parameter name to its text.
\<close>

definition GET_jobs_filters :: "(string \<Rightarrow> 'n) \<Rightarrow> (string \<rightharpoonup> string) \<Rightarrow> 'n job_filter" where
  "GET_jobs_filters parseInt query =
     (let filters = no_filter;
          filters = (case query ''title'' of
                       Some t \<Rightarrow> if t \<noteq> [] then filters\<lparr>job_filter.title := Some t\<rparr> else filters
                     | None \<Rightarrow> filters);
          filters = (case query ''minSalary'' of
                       Some m \<Rightarrow> filters\<lparr>minSalary := JNum (parseInt m)\<rparr>
                     | None \<Rightarrow> filters);
          filters = (if query ''hasEquity'' = Some ''true''
                     then filters\<lparr>hasEquity := JBool True\<rparr> else filters)
      in filters)"

section \<open>The second copy of the Job model\<close>

text \<open>
  One source file whose name is not known holds a second \<open>Job\<close> class. It is
  \<open>models/job.js\<close> line for line, with the same statements and the same errors, except
  that no read path converts \<open>equity\<close>: \<open>create\<close>, \<open>get\<close> and \<open>update\<close> end with
  \<open>const job = result.rows[0]; ... return job\<close> and \<open>findAll\<close> with
  \<open>return jobsRes.rows\<close>. In \<open>create\<close> an empty result gives \<open>undefined\<close>, here \<open>None\<close>.
\<close>

definition Job_create_unconverted ::
  "('n, 's) db \<Rightarrow> 'n job \<Rightarrow> 's \<Rightarrow> ('n error + 'n job option) \<times> 's" where
  "Job_create_unconverted db data st =
     (case db duplicateCheck_sql [job.title data, company_handle data] st of
        (Inl e, st1) \<Rightarrow> (Inl (StoreError e), st1)
      | (Inr duplicateCheck, st1) \<Rightarrow>
          if duplicateCheck \<noteq> [] then
            (Inl (BadRequestError (Duplicate_job (job.title data) (company_handle data))), st1)
          else
            (case db insert_sql [job.title data, salary data, equity data, company_handle data] st1 of
               (Inl e, st2) \<Rightarrow> (Inl (StoreError e), st2)
             | (Inr [], st2) \<Rightarrow> (Inr None, st2)
             | (Inr (job # _), st2) \<Rightarrow> (Inr (Some job), st2)))"

definition Job_findAll_unconverted ::
  "('n, 's) db \<Rightarrow> 'n job_filter \<Rightarrow> 's \<Rightarrow> ('n error + 'n job list) \<times> 's" where
  "Job_findAll_unconverted db f st =
     (case db (findAll_query f) (snd (findAll_where f)) st of
        (Inl e, st1) \<Rightarrow> (Inl (StoreError e), st1)
      | (Inr rows, st1) \<Rightarrow> (Inr rows, st1))"

definition Job_get_unconverted ::
  "('n, 's) db \<Rightarrow> 'n jsval \<Rightarrow> 's \<Rightarrow> ('n error + 'n job) \<times> 's" where
  "Job_get_unconverted db job_id st =
     (case db get_sql [job_id] st of
        (Inl e, st1) \<Rightarrow> (Inl (StoreError e), st1)
      | (Inr [], st1) \<Rightarrow> (Inl (NotFoundError (No_job job_id)), st1)
      | (Inr (job # _), st1) \<Rightarrow> (Inr job, st1))"

definition Job_update_unconverted ::
  "('n, 's) db \<Rightarrow> 'n jsval \<Rightarrow> 'n js_object \<Rightarrow> 's \<Rightarrow> ('n error + 'n job) \<times> 's" where
  "Job_update_unconverted db job_id data st =
     (case sqlForPartialUpdate data update_jsToSql of
        Inl e \<Rightarrow> (Inl e, st)
      | Inr r \<Rightarrow>
          (let jobIdIdx = ''$'' @ string_of_nat (length (values' r) + 1);
               querySql = update_querySql (setCols r) jobIdIdx
           in case db querySql (values' r @ [job_id]) st of
                (Inl e, st1) \<Rightarrow> (Inl (StoreError e), st1)
              | (Inr [], st1) \<Rightarrow> (Inl (NotFoundError (No_job job_id)), st1)
              | (Inr (job # _), st1) \<Rightarrow> (Inr job, st1)))"

section \<open>The company list request\<close>

text \<open>
  Modelled from the spec: the range validation of the company filter. The company routes
  and the company model are not among the sources; only a test of \<open>GET /companies\<close> is.
  When both \<open>minEmployees\<close> and \<open>maxEmployees\<close> are supplied and the minimum exceeds the
  maximum, the request is rejected with an InvalidInput error (the message is the one the
  test expects); otherwise query construction and the store access follow, which the
  specification leaves open and which are the parameter \<open>construct_and_query\<close>.
\<close>

record company_filter =
  name :: "string option"
  minEmployees :: "int option"
  maxEmployees :: "int option"

definition Company_findAll ::
  "(company_filter \<Rightarrow> 's \<Rightarrow> ('n error + 'r) \<times> 's) \<Rightarrow> company_filter \<Rightarrow> 's \<Rightarrow> ('n error + 'r) \<times> 's" where
  "Company_findAll construct_and_query f st =
     (case (minEmployees f, maxEmployees f) of
        (Some lo, Some hi) \<Rightarrow>
          if lo > hi then
            (Inl (BadRequestError (Text ''minEmployees cannot be greater than maxEmployees.'')), st)
          else construct_and_query f st
      | _ \<Rightarrow> construct_and_query f st)"

section \<open>Stand-ins for the collaborators\<close>

text \<open>
  Concrete instances of the parameters, used to run the model: a \<open>parseFloat\<close> on integers
  written in decimal, a store client that answers every statement with the same rows, and
  a small table of jobs that understands the four fixed statements of the Job model.
\<close>

definition demo_parseFloat :: "int jsval \<Rightarrow> int" where
  "demo_parseFloat v = (case v of JStr s \<Rightarrow> int (decimal_value s) | JNum n \<Rightarrow> n | _ \<Rightarrow> 0)"

definition const_db :: "'n job list \<Rightarrow> ('n, 's) db" where
  "const_db rows text params st = (Inr rows, st)"

definition table_db :: "(int, int job list) db" where
  "table_db text params st =
     (if text = duplicateCheck_sql then
        (case params of
           [t, c] \<Rightarrow> (Inr (filter (\<lambda>r. job.title r = t \<and> company_handle r = c) st), st)
         | _ \<Rightarrow> (Inl ''bind message has the wrong number of parameters'', st))
      else if text = insert_sql then
        (case params of
           [t, s, e, c] \<Rightarrow>
             (let r = \<lparr>id' = JNum (int (length st) + 1), title = t, salary = s, equity = e,
                       company_handle = c\<rparr>
              in (Inr [r], st @ [r]))
         | _ \<Rightarrow> (Inl ''bind message has the wrong number of parameters'', st))
      else if text = get_sql then
        (case params of
           [i] \<Rightarrow> (Inr (filter (\<lambda>r. id' r = i) st), st)
         | _ \<Rightarrow> (Inl ''bind message has the wrong number of parameters'', st))
      else if text = delete_sql then
        (case params of
           [i] \<Rightarrow> (Inr (filter (\<lambda>r. id' r = i) st), filter (\<lambda>r. id' r \<noteq> i) st)
         | _ \<Rightarrow> (Inl ''bind message has the wrong number of parameters'', st))
      else (Inr [], st))"

section \<open>Properties of the partial update builder\<close>

subsection \<open>Enumeration order and indexed map\<close>

lemma length_own_entries: "length (own_entries obj) = length obj"
  by (simp add: own_entries_def sum_length_filter_compl)


lemma own_entries_Nil_iff: "own_entries obj = [] \<longleftrightarrow> obj = []"
  using length_own_entries [of obj] by (metis length_0_conv)



lemma own_entries_other_part:
  "filter (\<lambda>p. \<not> is_array_index (fst p)) (own_entries obj)
     = filter (\<lambda>p. \<not> is_array_index (fst p)) obj"
  by (simp add: own_entries_def filter_sort)




lemma length_Object_values: "length (Object_values obj) = length obj"
  by (simp add: Object_values_def length_own_entries)


lemma nth_Array_map: "i < length xs \<Longrightarrow> Array_map f k xs ! i = f (xs ! i) (k + i)"
proof (induction xs arbitrary: k i)
  case Nil
  then show ?case by simp
next
  case (Cons x xs)
  then show ?case by (cases i) simp_all
qed

lemma sqlForPartialUpdate_Inr:
  "dataToUpdate \<noteq> [] \<Longrightarrow>
   sqlForPartialUpdate dataToUpdate jsToSql =
     Inr \<lparr>setCols = join '', '' (sqlCols dataToUpdate jsToSql),
          values' = Object_values dataToUpdate\<rparr>"
  by (simp add: sqlForPartialUpdate_def Object_keys_def own_entries_Nil_iff)

lemma sqlForPartialUpdate_Nil:
  "sqlForPartialUpdate [] jsToSql = Inl (BadRequestError (Text ''No data''))"
  by (simp add: sqlForPartialUpdate_def Object_keys_def own_entries_def)

lemma nth_sqlCols:
  "i < length dataToUpdate \<Longrightarrow>
   sqlCols dataToUpdate jsToSql ! i =
     ''\"'' @ columnName jsToSql (Object_keys dataToUpdate ! i) @ ''\"=$'' @ string_of_nat (i + 1)"
  by (simp add: sqlCols_def nth_Array_map Object_keys_def length_own_entries)


lemma string_of_nat_small:
  "string_of_nat (Suc 0) = ''1''" "string_of_nat 1 = ''1''"
  "string_of_nat (Suc (Suc 0)) = ''2''" "string_of_nat 2 = ''2''"
  "string_of_nat (Suc (Suc (Suc 0))) = ''3''" "string_of_nat 3 = ''3''"
  by (simp_all add: string_of_nat.simps digit_char_def)

text \<open>Unfolding rules that evaluate the builder on a concrete object.\<close>

lemmas sql_eval =
  sqlForPartialUpdate_def sqlCols_def Object_keys_def Object_values_def own_entries_def
  is_array_index_def decimal_value_def digit_value_def string_of_nat.simps digit_char_def
  columnName_def Object_prototype_text_def

subsection \<open>Shape of the fragment\<close>




subsection \<open>Empty input\<close>

text \<open>
  C2. \<open>sqlForPartialUpdate\<close> fails with \<open>BadRequestError("No data")\<close> if and only if the
  field map is empty; it fails at all only then, and for every non-empty map it returns a
  result.
\<close>

theorem sqlForPartialUpdate_no_data:
  "(sqlForPartialUpdate dataToUpdate jsToSql = Inl (BadRequestError (Text ''No data'')))
      = (dataToUpdate = [])
   \<and> isl (sqlForPartialUpdate dataToUpdate jsToSql) = (dataToUpdate = [])
   \<and> (dataToUpdate \<noteq> [] \<longrightarrow> (\<exists>r. sqlForPartialUpdate dataToUpdate jsToSql = Inr r))"
proof (cases "dataToUpdate = []")
  case True
  then show ?thesis
    by (simp add: sqlForPartialUpdate_Nil)
next
  case False
  then show ?thesis
    by (simp add: sqlForPartialUpdate_Inr)
qed

theorem sqlForPartialUpdate_no_data_witness:
  "sqlForPartialUpdate ([] :: int js_object) [''firstName'' \<mapsto> ''first_name'']
      = Inl (BadRequestError (Text ''No data''))
   \<and> [(''firstName'', JStr ''John'')] \<noteq> ([] :: int js_object)
   \<and> \<not> isl (sqlForPartialUpdate ([(''firstName'', JStr ''John'')] :: int js_object)
               [''firstName'' \<mapsto> ''first_name''])"
  using sqlForPartialUpdate_no_data [of "[] :: int js_object" "[''firstName'' \<mapsto> ''first_name'']"]
    sqlForPartialUpdate_no_data [of "[(''firstName'', JStr ''John'')] :: int js_object"
      "[''firstName'' \<mapsto> ''first_name'']"]
  by simp

subsection \<open>Column names\<close>

text \<open>
  The column of the \<open>i\<close>-th key, case by case: the mapper's own entry when it is not the
  empty string; the key itself when the own entry is the empty string, or when neither the
  mapper nor \<open>Object.prototype\<close> has the name; and the text of the inherited property when
  the mapper has no own entry and \<open>Object.prototype\<close> has the name. The builder returns a
  result in every case.
\<close>

lemma sqlCols_column_cases:
  assumes "i < length dataToUpdate"
  shows "(jsToSql (Object_keys dataToUpdate ! i) = Some c \<and> c \<noteq> [] \<longrightarrow>
            sqlCols dataToUpdate jsToSql ! i = ''\"'' @ c @ ''\"=$'' @ string_of_nat (i + 1))
    \<and> (jsToSql (Object_keys dataToUpdate ! i) = Some [] \<longrightarrow>
            sqlCols dataToUpdate jsToSql ! i
              = ''\"'' @ Object_keys dataToUpdate ! i @ ''\"=$'' @ string_of_nat (i + 1))
    \<and> (jsToSql (Object_keys dataToUpdate ! i) = None
         \<and> Object_prototype_text (Object_keys dataToUpdate ! i) = None \<longrightarrow>
            sqlCols dataToUpdate jsToSql ! i
              = ''\"'' @ Object_keys dataToUpdate ! i @ ''\"=$'' @ string_of_nat (i + 1))
    \<and> (jsToSql (Object_keys dataToUpdate ! i) = None
         \<and> Object_prototype_text (Object_keys dataToUpdate ! i) = Some inherited \<longrightarrow>
            sqlCols dataToUpdate jsToSql ! i = ''\"'' @ inherited @ ''\"=$'' @ string_of_nat (i + 1))
    \<and> \<not> isl (sqlForPartialUpdate dataToUpdate jsToSql)"
proof -
  from assms have ne: "dataToUpdate \<noteq> []" by auto
  have ok: "\<not> isl (sqlForPartialUpdate dataToUpdate jsToSql)"
    by (simp add: sqlForPartialUpdate_Inr [OF ne])
  show ?thesis
    using ok nth_sqlCols [OF assms, of jsToSql]
    by (auto simp add: columnName_def simp del: One_nat_def split: option.split)
qed

text \<open>
  Where the code agrees with the Field Mapper contract of the specification: at every key
  whose own entry is not the empty string and which, if the mapper has no entry for it, is
  not the name of a property of \<open>Object.prototype\<close>.
\<close>

lemma columnName_spec_fieldMapper:
  "jsToSql colName \<noteq> Some [] \<Longrightarrow>
   jsToSql colName \<noteq> None \<or> Object_prototype_text colName = None \<Longrightarrow>
   columnName jsToSql colName = spec_fieldMapper jsToSql colName"
  by (auto simp add: columnName_def spec_fieldMapper_def split: option.split)

text \<open>The three examples of the unit tests and a key mapped to the empty string.\<close>

lemma sqlCols_examples:
  "sqlCols [(''lastName'', JStr ''Doe''), (''firstName'', JStr ''Jo''), (''age'', JNum (30::int))]
        [''firstName'' \<mapsto> ''first_name'', ''age'' \<mapsto> '''']
     = [''\"lastName\"=$1'', ''\"first_name\"=$2'', ''\"age\"=$3'']"
  by (simp add: sql_eval)

text \<open>
  The example of a key that \<open>Object.prototype\<close> answers: for
  \<open>sqlForPartialUpdate({toString: 1, a: 2}, {})\<close> the first column is the text of the
  inherited function.
\<close>

lemma sqlForPartialUpdate_toString:
  "sqlForPartialUpdate [(''toString'', JNum (1::int)), (''a'', JNum 2)] Map.empty
     = Inr \<lparr>setCols = ''\"function toString() { [native code] }\"=$1, \"a\"=$2'',
            values' = [JNum 1, JNum 2]\<rparr>"
  by (simp add: sql_eval)

text \<open>
  C5. The claim is that the column name used by \<open>sqlForPartialUpdate\<close> is the mapped
  internal column name when a mapping exists for the field name and the field name itself
  when none exists, as the Field Mapper contract of the specification, the function's
  comment and the unit test for keys that are not in the mapping say. The code does not
  do that for \<open>sqlForPartialUpdate({constructor: "x"}, {firstName: "first_name"})\<close>: the
  mapper has no entry for \<open>constructor\<close>, the contract gives the column \<open>constructor\<close>, and
  the builder returns the column \<open>function Object() { [native code] }\<close>, because
  \<open>jsToSql[colName]\<close> also reads what the mapper inherits.
\<close>

theorem sqlForPartialUpdate_inherited_key:
  "sqlForPartialUpdate [(''constructor'', JStr ''x'' :: int jsval)] [''firstName'' \<mapsto> ''first_name'']
     = Inr \<lparr>setCols = ''\"function Object() { [native code] }\"=$1'', values' = [JStr ''x'']\<rparr>
   \<and> [''firstName'' \<mapsto> ''first_name''] ''constructor'' = None
   \<and> spec_fieldMapper [''firstName'' \<mapsto> ''first_name''] ''constructor'' = ''constructor''"
  by (simp add: sql_eval spec_fieldMapper_def)

section \<open>Properties of the Job model\<close>

subsection \<open>The statement that findAll builds\<close>

lemma findAll_where_closed:
  "findAll_where f =
     (map (\<lambda>t. ''title ILIKE $'' @ string_of_nat 1) (truthy_text (job_filter.title f))
      @ (if minSalary f \<noteq> JUndefined
         then [''salary >= $'' @ string_of_nat (1 + length (truthy_text (job_filter.title f)))] else [])
      @ (if hasEquity f = JBool True then [''equity > 0''] else [])
      @ map (\<lambda>c. ''company_handle = $'' @ string_of_nat
               (1 + length (truthy_text (job_filter.title f)) + (if minSalary f \<noteq> JUndefined then 1 else 0)))
          (truthy_text (companyHandle f)),
      map (\<lambda>t. JStr (''%'' @ t @ ''%'')) (truthy_text (job_filter.title f))
      @ (if minSalary f \<noteq> JUndefined then [minSalary f] else [])
      @ map JStr (truthy_text (companyHandle f)))"
  by (simp add: findAll_where_def truthy_text_def Let_def split: option.split)

lemma length_findAll_where: "length (fst (findAll_where f)) = criteria_effective f"
  by (simp add: findAll_where_closed criteria_effective_def)

lemma findAll_query_closed:
  "findAll_query f =
     findAll_select
     @ (if fst (findAll_where f) = [] then []
        else '' WHERE '' @ join '' AND '' (fst (findAll_where f)))
     @ '' ORDER BY title''"
  by (simp add: findAll_query_def Let_def)

lemma findAll_no_filter: "findAll_where no_filter = ([], [])"
  by (simp add: findAll_where_closed no_filter_def truthy_text_def)

subsection \<open>Order of the criteria and numbering of the parameters\<close>

text \<open>
  C4. \<open>Job.findAll\<close> tests the criteria in the order title, minSalary, hasEquity,
  companyHandle. The title criterion gives \<open>title ILIKE $k\<close> with the parameter \<open>%title%\<close>,
  minSalary gives \<open>salary >= $k\<close> with the threshold, companyHandle gives
  \<open>company_handle = $k\<close> with the handle, and each \<open>k\<close> is one more than the number of
  parameters pushed before it; hasEquity gives \<open>equity > 0\<close> and pushes no parameter. The
  fragments are joined with \<open>AND\<close> behind \<open>WHERE\<close>, the statement ends with
  \<open>ORDER BY title\<close>, and the rows come back in the order in which the store returned them.
\<close>

theorem findAll_order:
  "fst (findAll_where f) =
     map (\<lambda>t. ''title ILIKE $'' @ string_of_nat 1) (truthy_text (job_filter.title f))
     @ (if minSalary f \<noteq> JUndefined
        then [''salary >= $'' @ string_of_nat (1 + length (truthy_text (job_filter.title f)))] else [])
     @ (if hasEquity f = JBool True then [''equity > 0''] else [])
     @ map (\<lambda>c. ''company_handle = $'' @ string_of_nat
              (1 + length (truthy_text (job_filter.title f)) + (if minSalary f \<noteq> JUndefined then 1 else 0)))
         (truthy_text (companyHandle f))
   \<and> snd (findAll_where f) =
     map (\<lambda>t. JStr (''%'' @ t @ ''%'')) (truthy_text (job_filter.title f))
     @ (if minSalary f \<noteq> JUndefined then [minSalary f] else [])
     @ map JStr (truthy_text (companyHandle f))
   \<and> findAll_query f =
     findAll_select
     @ (if fst (findAll_where f) = [] then []
        else '' WHERE '' @ join '' AND '' (fst (findAll_where f)))
     @ '' ORDER BY title''
   \<and> (db (findAll_query f) (snd (findAll_where f)) st = (Inr rows, st1) \<longrightarrow>
        Job_findAll parseFloat db f st = (Inr (map (equity_parseFloat parseFloat) rows), st1))"
proof -
  have w: "fst (findAll_where f) =
     map (\<lambda>t. ''title ILIKE $'' @ string_of_nat 1) (truthy_text (job_filter.title f))
     @ (if minSalary f \<noteq> JUndefined
        then [''salary >= $'' @ string_of_nat (1 + length (truthy_text (job_filter.title f)))] else [])
     @ (if hasEquity f = JBool True then [''equity > 0''] else [])
     @ map (\<lambda>c. ''company_handle = $'' @ string_of_nat
              (1 + length (truthy_text (job_filter.title f)) + (if minSalary f \<noteq> JUndefined then 1 else 0)))
         (truthy_text (companyHandle f))"
    by (simp only: findAll_where_closed fst_conv)
  have v: "snd (findAll_where f) =
     map (\<lambda>t. JStr (''%'' @ t @ ''%'')) (truthy_text (job_filter.title f))
     @ (if minSalary f \<noteq> JUndefined then [minSalary f] else [])
     @ map JStr (truthy_text (companyHandle f))"
    by (simp only: findAll_where_closed snd_conv)
  have r: "db (findAll_query f) (snd (findAll_where f)) st = (Inr rows, st1) \<longrightarrow>
        Job_findAll parseFloat db f st = (Inr (map (equity_parseFloat parseFloat) rows), st1)"
    by (simp add: Job_findAll_def)
  from w v findAll_query_closed [of f] r show ?thesis
    by (intro conjI)
qed

text \<open>All four criteria at once, and a store that answers with one row.\<close>

theorem findAll_order_witness:
  "findAll_where \<lparr>title = Some ''eng'', minSalary = JNum (100::int), hasEquity = JBool True,
       companyHandle = Some ''c1''\<rparr>
     = ([''title ILIKE $1'', ''salary >= $2'', ''equity > 0'', ''company_handle = $3''],
        [JStr ''%eng%'', JNum 100, JStr ''c1''])
   \<and> findAll_query \<lparr>title = Some ''eng'', minSalary = JNum (100::int), hasEquity = JBool True,
       companyHandle = Some ''c1''\<rparr>
     = findAll_select
       @ '' WHERE title ILIKE $1 AND salary >= $2 AND equity > 0 AND company_handle = $3 ORDER BY title''
   \<and> Job_findAll demo_parseFloat
        (const_db [\<lparr>id' = JNum 1, title = JStr ''engineer'', salary = JNum 200, equity = JStr ''1'',
                    company_handle = JStr ''c1''\<rparr>])
        \<lparr>title = Some ''eng'', minSalary = JNum (100::int), hasEquity = JBool True,
          companyHandle = Some ''c1''\<rparr> ()
     = (Inr [\<lparr>id' = JNum 1, title = JStr ''engineer'', salary = JNum 200, equity = JNum 1,
               company_handle = JStr ''c1''\<rparr>], ())"
proof -
  let ?f = "\<lparr>title = Some ''eng'', minSalary = JNum (100::int), hasEquity = JBool True,
       companyHandle = Some ''c1''\<rparr>"
  let ?row = "\<lparr>id' = JNum (1::int), title = JStr ''engineer'', salary = JNum 200, equity = JStr ''1'',
                    company_handle = JStr ''c1''\<rparr>"
  have db: "(const_db [?row] :: (int, unit) db) (findAll_query ?f) (snd (findAll_where ?f)) ()
      = (Inr [?row], ())"
    by (simp add: const_db_def)
  note inst = findAll_order [of ?f "const_db [?row]" "()" "[?row]" "()" demo_parseFloat]
  have 1: "findAll_where ?f
     = ([''title ILIKE $1'', ''salary >= $2'', ''equity > 0'', ''company_handle = $3''],
        [JStr ''%eng%'', JNum 100, JStr ''c1''])"
    using inst
    by (simp add: prod_eq_iff truthy_text_def string_of_nat_small)
  have 2: "findAll_query ?f = findAll_select
       @ '' WHERE title ILIKE $1 AND salary >= $2 AND equity > 0 AND company_handle = $3 ORDER BY title''"
    using inst 1 by simp
  have 3: "Job_findAll demo_parseFloat (const_db [?row]) ?f ()
      = (Inr [equity_parseFloat demo_parseFloat ?row], ())"
    using inst db by simp
  from 1 2 3 show ?thesis
    by (simp add: equity_parseFloat_def demo_parseFloat_def decimal_value_def digit_value_def)
qed

subsection \<open>Number of predicate fragments\<close>

text \<open>
  C3 (amended). For every combination of the four criteria, the number of predicate
  fragments that \<open>Job.findAll\<close> builds is the number of criteria that pass its tests: a
  non-empty title, a minSalary that is not \<open>undefined\<close>, a hasEquity that is exactly \<open>true\<close>,
  a non-empty companyHandle. That is the number of present criteria whenever no text
  criterion is the empty string and hasEquity, if present, is \<open>true\<close>. When no criteria are
  supplied the predicate list and the parameter list are empty, the statement has no
  \<open>WHERE\<close> clause, and every row the store returns for it is returned.
\<close>

theorem findAll_fragment_count:
  "length (fst (findAll_where f)) = criteria_effective f
   \<and> (job_filter.title f \<noteq> Some [] \<and> companyHandle f \<noteq> Some []
        \<and> (hasEquity f = JUndefined \<or> hasEquity f = JBool True)
      \<longrightarrow> length (fst (findAll_where f)) = criteria_present f)
   \<and> findAll_where (no_filter :: 'n job_filter) = ([], [])
   \<and> findAll_query (no_filter :: 'n job_filter) = findAll_select @ '' ORDER BY title''
   \<and> (db (findAll_select @ '' ORDER BY title'') [] st = (Inr rows, st1) \<longrightarrow>
        Job_findAll parseFloat db (no_filter :: 'n job_filter) st
          = (Inr (map (equity_parseFloat parseFloat) rows), st1))"
proof -
  have eff: "length (fst (findAll_where f)) = criteria_effective f"
    by (rule length_findAll_where)
  have pres: "job_filter.title f \<noteq> Some [] \<and> companyHandle f \<noteq> Some []
        \<and> (hasEquity f = JUndefined \<or> hasEquity f = JBool True)
      \<longrightarrow> length (fst (findAll_where f)) = criteria_present f"
    by (auto simp add: eff criteria_effective_def criteria_present_def truthy_text_def
        split: option.split)
  have q: "findAll_query (no_filter :: 'n job_filter) = findAll_select @ '' ORDER BY title''"
    by (simp add: findAll_query_closed findAll_no_filter)
  have run: "db (findAll_select @ '' ORDER BY title'') [] st = (Inr rows, st1) \<longrightarrow>
        Job_findAll parseFloat db (no_filter :: 'n job_filter) st
          = (Inr (map (equity_parseFloat parseFloat) rows), st1)"
    by (simp add: Job_findAll_def q findAll_no_filter)
  from eff pres findAll_no_filter q run show ?thesis
    by (intro conjI)
qed

text \<open>Two present criteria give two fragments; no criteria select from the whole table.\<close>

theorem findAll_fragment_count_witness:
  "length (fst (findAll_where \<lparr>title = Some ''eng'', minSalary = JNum (100::int),
       hasEquity = JUndefined, companyHandle = None\<rparr>)) = 2
   \<and> criteria_present \<lparr>title = Some ''eng'', minSalary = JNum (100::int),
       hasEquity = JUndefined, companyHandle = None\<rparr> = 2
   \<and> Job_findAll demo_parseFloat table_db no_filter
        [\<lparr>id' = JNum 1, title = JStr ''engineer'', salary = JNum 200, equity = JStr ''1'',
          company_handle = JStr ''c1''\<rparr>]
      = (Inr [], [\<lparr>id' = JNum 1, title = JStr ''engineer'', salary = JNum 200, equity = JStr ''1'',
          company_handle = JStr ''c1''\<rparr>])"
proof -
  let ?f = "\<lparr>title = Some ''eng'', minSalary = JNum (100::int),
       hasEquity = JUndefined, companyHandle = None\<rparr>"
  let ?st = "[\<lparr>id' = JNum (1::int), title = JStr ''engineer'', salary = JNum 200, equity = JStr ''1'',
          company_handle = JStr ''c1''\<rparr>]"
  have db: "table_db (findAll_select @ '' ORDER BY title'') [] ?st = (Inr [], ?st)"
    by (simp add: table_db_def findAll_select_def duplicateCheck_sql_def insert_sql_def get_sql_def
        delete_sql_def)
  note inst = findAll_fragment_count [of ?f table_db ?st "[]" ?st demo_parseFloat]
  have p: "criteria_present ?f = 2"
    by (simp add: criteria_present_def)
  have "length (fst (findAll_where ?f)) = 2"
    using inst p by simp
  moreover have "Job_findAll demo_parseFloat table_db no_filter ?st = (Inr [], ?st)"
    using inst db by simp
  ultimately show ?thesis using p by simp
qed

text \<open>
  C3 as stated fails for \<open>findAll({hasEquity: false})\<close>: one criterion is present, and no
  fragment is built.
\<close>

theorem findAll_present_count_counterexample:
  "length (fst (findAll_where \<lparr>title = None, minSalary = JUndefined :: int jsval,
       hasEquity = JBool False, companyHandle = None\<rparr>)) = 0
   \<and> criteria_present \<lparr>title = None, minSalary = JUndefined :: int jsval,
       hasEquity = JBool False, companyHandle = None\<rparr> = 1"
  by (simp add: length_findAll_where criteria_effective_def criteria_present_def truthy_text_def)

subsection \<open>Criteria that are present and ignored\<close>

text \<open>
  C10. In \<open>Job.findAll\<close>, a title or a companyHandle equal to the empty string, and a
  hasEquity with any value other than the boolean \<open>true\<close>, contribute no predicate and no
  parameter: whatever the other criteria are, the fragments, the parameters and the
  statement text are those of the filter without that criterion. In particular
  \<open>findAll({title: ""})\<close>, \<open>findAll({companyHandle: ""})\<close>, \<open>findAll({hasEquity: false})\<close> and
  \<open>findAll({})\<close> all construct the same statement text and the same, empty, parameter list.
\<close>

theorem findAll_ignored_criteria:
  "findAll_where ((f :: 'n job_filter)\<lparr>job_filter.title := Some []\<rparr>) = findAll_where (f\<lparr>job_filter.title := None\<rparr>)
   \<and> findAll_query (f\<lparr>job_filter.title := Some []\<rparr>) = findAll_query (f\<lparr>job_filter.title := None\<rparr>)
   \<and> findAll_where (f\<lparr>companyHandle := Some []\<rparr>) = findAll_where (f\<lparr>companyHandle := None\<rparr>)
   \<and> findAll_query (f\<lparr>companyHandle := Some []\<rparr>) = findAll_query (f\<lparr>companyHandle := None\<rparr>)
   \<and> (v \<noteq> JBool True \<longrightarrow>
        findAll_where (f\<lparr>hasEquity := v\<rparr>) = findAll_where (f\<lparr>hasEquity := JUndefined\<rparr>)
        \<and> findAll_query (f\<lparr>hasEquity := v\<rparr>) = findAll_query (f\<lparr>hasEquity := JUndefined\<rparr>))
   \<and> (findAll_query (no_filter\<lparr>job_filter.title := Some []\<rparr> :: 'n job_filter),
        snd (findAll_where (no_filter\<lparr>job_filter.title := Some []\<rparr> :: 'n job_filter)))
       = (findAll_select @ '' ORDER BY title'', [])
   \<and> (findAll_query (no_filter\<lparr>companyHandle := Some []\<rparr> :: 'n job_filter),
        snd (findAll_where (no_filter\<lparr>companyHandle := Some []\<rparr> :: 'n job_filter)))
       = (findAll_select @ '' ORDER BY title'', [])
   \<and> (findAll_query (no_filter\<lparr>hasEquity := JBool False\<rparr> :: 'n job_filter),
        snd (findAll_where (no_filter\<lparr>hasEquity := JBool False\<rparr> :: 'n job_filter)))
       = (findAll_select @ '' ORDER BY title'', [])
   \<and> (findAll_query (no_filter :: 'n job_filter), snd (findAll_where (no_filter :: 'n job_filter)))
       = (findAll_select @ '' ORDER BY title'', [])"
proof -
  have t: "findAll_where (g\<lparr>job_filter.title := Some []\<rparr>) = findAll_where (g\<lparr>job_filter.title := None\<rparr>)"
    for g :: "'n job_filter"
    by (simp add: findAll_where_closed truthy_text_def)
  have c: "findAll_where (g\<lparr>companyHandle := Some []\<rparr>) = findAll_where (g\<lparr>companyHandle := None\<rparr>)"
    for g :: "'n job_filter"
    by (simp add: findAll_where_closed truthy_text_def)
  have h: "findAll_where (g\<lparr>hasEquity := w\<rparr>) = findAll_where (g\<lparr>hasEquity := JUndefined\<rparr>)"
    if "w \<noteq> JBool True" for g :: "'n job_filter" and w
    using that by (simp add: findAll_where_closed)
  have n: "findAll_where (no_filter\<lparr>hasEquity := JUndefined\<rparr> :: 'n job_filter) = ([], [])"
    "findAll_where (no_filter\<lparr>job_filter.title := None\<rparr> :: 'n job_filter) = ([], [])"
    "findAll_where (no_filter\<lparr>companyHandle := None\<rparr> :: 'n job_filter) = ([], [])"
    by (simp_all add: findAll_where_closed no_filter_def truthy_text_def)
  have f: "findAll_where (no_filter\<lparr>hasEquity := JBool False\<rparr> :: 'n job_filter) = ([], [])"
    using h [of "JBool False" no_filter] by (simp add: n)
  show ?thesis
    using h [of v f]
    by (simp add: findAll_query_closed t c n f findAll_no_filter)
qed

text \<open>
  The string \<open>"true"\<close> is not the boolean: with it and an empty companyHandle only the
  title is left.
\<close>

theorem findAll_ignored_criteria_witness:
  "JStr ''true'' \<noteq> (JBool True :: int jsval)
   \<and> findAll_where \<lparr>title = Some ''eng'', minSalary = JUndefined :: int jsval,
        hasEquity = JStr ''true'', companyHandle = Some []\<rparr>
      = ([''title ILIKE $1''], [JStr ''%eng%''])
   \<and> findAll_query \<lparr>title = Some ''eng'', minSalary = JUndefined :: int jsval,
        hasEquity = JStr ''true'', companyHandle = Some []\<rparr>
      = findAll_select @ '' WHERE title ILIKE $1 ORDER BY title''"
proof -
  let ?f = "\<lparr>title = Some ''eng'', minSalary = JUndefined :: int jsval,
        hasEquity = JUndefined, companyHandle = None\<rparr>"
  have v: "JStr ''true'' \<noteq> (JBool True :: int jsval)" by simp
  have base: "findAll_where ?f = ([''title ILIKE $1''], [JStr ''%eng%''])"
    by (simp add: findAll_where_def string_of_nat_small)
  have q: "findAll_query ?f = findAll_select @ '' WHERE title ILIKE $1 ORDER BY title''"
    by (simp add: findAll_query_def base)
  let ?g = "\<lparr>title = Some ''eng'', minSalary = JUndefined :: int jsval,
        hasEquity = JStr ''true'', companyHandle = None\<rparr>"
  from findAll_ignored_criteria [of ?g "JStr ''true''"]
  have c: "findAll_where (?g\<lparr>companyHandle := Some []\<rparr>) = findAll_where (?g\<lparr>companyHandle := None\<rparr>)"
    and cq: "findAll_query (?g\<lparr>companyHandle := Some []\<rparr>) = findAll_query (?g\<lparr>companyHandle := None\<rparr>)"
    by blast+
  from findAll_ignored_criteria [of ?f "JStr ''true''"] v
  have h: "findAll_where (?f\<lparr>hasEquity := JStr ''true''\<rparr>) = findAll_where (?f\<lparr>hasEquity := JUndefined\<rparr>)"
    and hq: "findAll_query (?f\<lparr>hasEquity := JStr ''true''\<rparr>) = findAll_query (?f\<lparr>hasEquity := JUndefined\<rparr>)"
    by blast+
  from c cq h hq base q v show ?thesis by simp
qed

subsection \<open>The query string of GET /jobs\<close>

text \<open>
  The route never passes an empty title, never a hasEquity other than \<open>true\<close>, and no
  companyHandle, so for the filters it builds the fragments are as many as the criteria.
\<close>

lemma GET_jobs_filters_shape:
  "job_filter.title (GET_jobs_filters parseInt query) \<noteq> Some []
   \<and> (hasEquity (GET_jobs_filters parseInt query) = JUndefined
        \<or> hasEquity (GET_jobs_filters parseInt query) = JBool True)
   \<and> companyHandle (GET_jobs_filters parseInt query) = None"
  by (simp add: GET_jobs_filters_def no_filter_def Let_def split: option.split)

lemma GET_jobs_fragment_count:
  "length (fst (findAll_where (GET_jobs_filters parseInt query)))
     = criteria_present (GET_jobs_filters parseInt query)"
  using GET_jobs_filters_shape [of parseInt query]
  by (auto simp add: length_findAll_where criteria_effective_def criteria_present_def truthy_text_def
      split: option.split)

lemma GET_jobs_ignored_parameters:
  "GET_jobs_filters parseInt [''title'' \<mapsto> [], ''hasEquity'' \<mapsto> ''false''] = no_filter"
  by (simp add: GET_jobs_filters_def Let_def)

subsection \<open>Rows and statements\<close>

lemma equity_parseFloat_not_null:
  "equity row \<noteq> JNull \<Longrightarrow>
   equity_parseFloat parseFloat row = row\<lparr>equity := JNum (parseFloat (equity row))\<rparr>"
  by (simp add: equity_parseFloat_def)

lemma equity_parseFloat_null: "equity row = JNull \<Longrightarrow> equity_parseFloat parseFloat row = row"
  by (simp add: equity_parseFloat_def)

lemma Job_update_nonempty:
  "data \<noteq> [] \<Longrightarrow>
   Job_update parseFloat db job_id data st =
     (case db (update_querySql (join '', '' (sqlCols data update_jsToSql))
                 (''$'' @ string_of_nat (length data + 1)))
              (Object_values data @ [job_id]) st of
        (Inl e, st1) \<Rightarrow> (Inl (StoreError e), st1)
      | (Inr [], st1) \<Rightarrow> (Inl (NotFoundError (No_job job_id)), st1)
      | (Inr (job # rest), st1) \<Rightarrow> (Inr (equity_parseFloat parseFloat job), st1))"
  by (simp add: Job_update_def sqlForPartialUpdate_Inr length_Object_values Let_def del: One_nat_def)

lemma Job_update_empty:
  "Job_update parseFloat db job_id [] st = (Inl (BadRequestError (Text ''No data'')), st)"
  by (simp add: Job_update_def sqlForPartialUpdate_Nil)

text \<open>The three outcomes of a statement whose first row decides between a result and NotFound.\<close>

lemma first_row_not_found:
  "(fst (case q of
           (Inl e, st1) \<Rightarrow> (Inl (StoreError e), st1)
         | (Inr [], st1) \<Rightarrow> (Inl (NotFoundError m), st1)
         | (Inr (job # rest), st1) \<Rightarrow> (Inr (g job), st1)) = Inl (NotFoundError m))
   = (fst q = Inr [])"
  by (auto split: prod.split sum.split list.split)

lemma Job_create_duplicate_row:
  "db duplicateCheck_sql [job.title data, company_handle data] st = (Inr (r # rs), st1) \<Longrightarrow>
   Job_create parseFloat db data st
     = (Inl (BadRequestError (Duplicate_job (job.title data) (company_handle data))), st1)"
  by (simp add: Job_create_def)

lemma Job_create_inserted:
  "db duplicateCheck_sql [job.title data, company_handle data] st = (Inr [], st1) \<Longrightarrow>
   db insert_sql [job.title data, salary data, equity data, company_handle data] st1
     = (Inr (job # rest), st2) \<Longrightarrow>
   Job_create parseFloat db data st = (Inr (equity_parseFloat parseFloat job), st2)"
  by (simp add: Job_create_def)

text \<open>A successful \<open>create\<close> has run the INSERT, and the state it returns is the INSERT's.\<close>

lemma Job_create_Inr_insert:
  assumes "Job_create parseFloat db data st = (Inr job, st2)"
  shows "\<exists>st1 rows. db insert_sql [job.title data, salary data, equity data, company_handle data] st1
           = (Inr rows, st2)"
proof -
  obtain a st1 where d: "db duplicateCheck_sql [job.title data, company_handle data] st = (a, st1)"
    by (cases "db duplicateCheck_sql [job.title data, company_handle data] st")
  obtain b st2' where i: "db insert_sql [job.title data, salary data, equity data, company_handle data] st1
      = (b, st2')"
    by (cases "db insert_sql [job.title data, salary data, equity data, company_handle data] st1")
  from assms d i have "\<exists>rows. b = Inr rows \<and> st2' = st2"
    by (auto simp add: Job_create_def split: sum.splits list.splits if_splits)
  with i show ?thesis by blast
qed

lemma table_db_insert_then_duplicate:
  "table_db insert_sql [t, s, e, c] st = (Inr rows, st') \<Longrightarrow>
   \<exists>x xs. fst (table_db duplicateCheck_sql [t, c] st') = Inr (x # xs)"
  by (auto simp add: table_db_def duplicateCheck_sql_def insert_sql_def Let_def neq_Nil_conv [symmetric])

lemmas store_eval =
  table_db_def const_db_def duplicateCheck_sql_def insert_sql_def get_sql_def delete_sql_def
  update_querySql_def equity_parseFloat_def demo_parseFloat_def decimal_value_def digit_value_def
  Let_def

subsection \<open>create\<close>

text \<open>
  C6. \<open>Job.create\<close> fails with \<open>BadRequestError\<close> (duplicate job) when the duplicate check
  for the title and the company handle returns a row, and then the store is in the state
  the check left: the INSERT has not run. When the check returns no row and the INSERT
  returns the stored row, \<open>create\<close> returns that row, its equity converted. In a store in
  which a row that has been inserted is found by the duplicate check for its title and
  company, a second \<open>create\<close> with the same data after a successful first one fails with the
  duplicate error.
\<close>

theorem Job_create_duplicate:
  "(db duplicateCheck_sql [job.title data, company_handle data] st = (Inr (r # rs), st1) \<longrightarrow>
      Job_create parseFloat db data st
        = (Inl (BadRequestError (Duplicate_job (job.title data) (company_handle data))), st1))
   \<and> (db duplicateCheck_sql [job.title data, company_handle data] st = (Inr [], st1)
       \<and> db insert_sql [job.title data, salary data, equity data, company_handle data] st1
           = (Inr (job # rest), st2) \<longrightarrow>
      Job_create parseFloat db data st = (Inr (equity_parseFloat parseFloat job), st2))
   \<and> ((\<forall>s s' rows. db insert_sql [job.title data, salary data, equity data, company_handle data] s
                      = (Inr rows, s') \<longrightarrow>
           (\<exists>x xs. fst (db duplicateCheck_sql [job.title data, company_handle data] s') = Inr (x # xs)))
       \<and> Job_create parseFloat db data st = (Inr created, st')
       \<longrightarrow> fst (Job_create parseFloat db data st')
           = Inl (BadRequestError (Duplicate_job (job.title data) (company_handle data))))"
proof (intro conjI impI)
  assume "db duplicateCheck_sql [job.title data, company_handle data] st = (Inr (r # rs), st1)"
  then show "Job_create parseFloat db data st
        = (Inl (BadRequestError (Duplicate_job (job.title data) (company_handle data))), st1)"
    by (rule Job_create_duplicate_row)
next
  assume "db duplicateCheck_sql [job.title data, company_handle data] st = (Inr [], st1)
       \<and> db insert_sql [job.title data, salary data, equity data, company_handle data] st1
           = (Inr (job # rest), st2)"
  then show "Job_create parseFloat db data st = (Inr (equity_parseFloat parseFloat job), st2)"
    by (simp add: Job_create_inserted)
next
  assume a: "(\<forall>s s' rows. db insert_sql [job.title data, salary data, equity data, company_handle data] s
                      = (Inr rows, s') \<longrightarrow>
           (\<exists>x xs. fst (db duplicateCheck_sql [job.title data, company_handle data] s') = Inr (x # xs)))
       \<and> Job_create parseFloat db data st = (Inr created, st')"
  then have cr: "Job_create parseFloat db data st = (Inr created, st')"
    by simp
  from Job_create_Inr_insert [OF cr]
  obtain s rows where "db insert_sql [job.title data, salary data, equity data, company_handle data] s
      = (Inr rows, st')"
    by blast
  with a obtain x xs where "fst (db duplicateCheck_sql [job.title data, company_handle data] st') = Inr (x # xs)"
    by blast
  then obtain st'' where "db duplicateCheck_sql [job.title data, company_handle data] st' = (Inr (x # xs), st'')"
    by (cases "db duplicateCheck_sql [job.title data, company_handle data] st'") simp
  then show "fst (Job_create parseFloat db data st')
           = Inl (BadRequestError (Duplicate_job (job.title data) (company_handle data)))"
    by (simp add: Job_create_duplicate_row)
qed

text \<open>The test of the model: on an empty table the first create stores the job, the second fails.\<close>

theorem Job_create_duplicate_witness:
  "Job_create demo_parseFloat table_db
       \<lparr>id' = JUndefined, title = JStr ''New Job'', salary = JNum 100000, equity = JStr ''0'',
         company_handle = JStr ''c1''\<rparr> []
     = (Inr \<lparr>id' = JNum 1, title = JStr ''New Job'', salary = JNum 100000, equity = JNum 0,
              company_handle = JStr ''c1''\<rparr>,
        [\<lparr>id' = JNum 1, title = JStr ''New Job'', salary = JNum 100000, equity = JStr ''0'',
           company_handle = JStr ''c1''\<rparr>])
   \<and> Job_create demo_parseFloat table_db
       \<lparr>id' = JUndefined, title = JStr ''New Job'', salary = JNum 100000, equity = JStr ''0'',
         company_handle = JStr ''c1''\<rparr>
       [\<lparr>id' = JNum 1, title = JStr ''New Job'', salary = JNum 100000, equity = JStr ''0'',
           company_handle = JStr ''c1''\<rparr>]
     = (Inl (BadRequestError (Duplicate_job (JStr ''New Job'') (JStr ''c1''))),
        [\<lparr>id' = JNum 1, title = JStr ''New Job'', salary = JNum 100000, equity = JStr ''0'',
           company_handle = JStr ''c1''\<rparr>])"
proof -
  let ?data = "\<lparr>id' = JUndefined :: int jsval, title = JStr ''New Job'', salary = JNum 100000,
         equity = JStr ''0'', company_handle = JStr ''c1''\<rparr>"
  let ?row = "\<lparr>id' = JNum (1::int), title = JStr ''New Job'', salary = JNum 100000,
         equity = JStr ''0'', company_handle = JStr ''c1''\<rparr>"
  have chk0: "table_db duplicateCheck_sql [job.title ?data, company_handle ?data] [] = (Inr [], [])"
    by (simp add: store_eval)
  have ins: "table_db insert_sql [job.title ?data, salary ?data, equity ?data, company_handle ?data] []
      = (Inr (?row # []), [?row])"
    by (simp add: store_eval)
  have chk1: "table_db duplicateCheck_sql [job.title ?data, company_handle ?data] [?row]
      = (Inr (?row # []), [?row])"
    by (simp add: store_eval)
  have law: "\<forall>s s' rows. table_db insert_sql [job.title ?data, salary ?data, equity ?data, company_handle ?data] s
                      = (Inr rows, s') \<longrightarrow>
           (\<exists>x xs. fst (table_db duplicateCheck_sql [job.title ?data, company_handle ?data] s') = Inr (x # xs))"
    using table_db_insert_then_duplicate by blast
  note first = Job_create_duplicate [where db = table_db and data = ?data and st = "[]"
      and ?st1.0 = "[]" and job = ?row and rest = "[]" and ?st2.0 = "[?row]"
      and parseFloat = demo_parseFloat and st' = "[?row]"
      and created = "equity_parseFloat demo_parseFloat ?row"]
  note second = Job_create_duplicate [where db = table_db and data = ?data and st = "[?row]"
      and ?st1.0 = "[?row]" and r = ?row and rs = "[]" and parseFloat = demo_parseFloat]
  have a: "Job_create demo_parseFloat table_db ?data []
      = (Inr (equity_parseFloat demo_parseFloat ?row), [?row])"
    using first chk0 ins by blast
  have b: "fst (Job_create demo_parseFloat table_db ?data [?row])
      = Inl (BadRequestError (Duplicate_job (job.title ?data) (company_handle ?data)))"
    using first law a by blast
  have c: "Job_create demo_parseFloat table_db ?data [?row]
      = (Inl (BadRequestError (Duplicate_job (job.title ?data) (company_handle ?data))), [?row])"
    using second chk1 by blast
  from a b c show ?thesis
    by (simp add: store_eval)
qed

subsection \<open>get, update and remove\<close>

text \<open>
  C7 (amended). For every id, \<open>Job.get\<close> and \<open>Job.remove\<close>, and \<open>Job.update\<close> with a
  non-empty payload, fail with \<open>NotFoundError\<close> exactly when their statement returns no
  row. When a row is returned, \<open>get\<close> returns it; \<open>update\<close>, whose statement is the
  \<open>UPDATE\<close> with the builder's SET clause, \<open>WHERE id = $(n+1)\<close> for a payload of \<open>n\<close> keys and
  the parameters the builder's values followed by the id, returns the updated row; and
  \<open>remove\<close> returns nothing, the store being in the state the \<open>DELETE\<close> left. With an empty
  payload \<open>update\<close> fails with \<open>BadRequestError("No data")\<close> before any store access,
  whether or not the row exists.
\<close>

theorem Job_not_found:
  "(fst (Job_get parseFloat db job_id st) = Inl (NotFoundError (No_job job_id)))
      = (fst (db get_sql [job_id] st) = Inr [])
   \<and> (db get_sql [job_id] st = (Inr (job # rest), st1) \<longrightarrow>
        Job_get parseFloat db job_id st = (Inr (equity_parseFloat parseFloat job), st1))
   \<and> (data \<noteq> [] \<longrightarrow>
        (fst (Job_update parseFloat db job_id data st) = Inl (NotFoundError (No_job job_id)))
          = (fst (db (update_querySql (join '', '' (sqlCols data update_jsToSql))
                        (''$'' @ string_of_nat (length data + 1)))
                     (Object_values data @ [job_id]) st) = Inr [])
        \<and> (db (update_querySql (join '', '' (sqlCols data update_jsToSql))
                  (''$'' @ string_of_nat (length data + 1)))
               (Object_values data @ [job_id]) st = (Inr (job # rest), st1) \<longrightarrow>
             Job_update parseFloat db job_id data st = (Inr (equity_parseFloat parseFloat job), st1)))
   \<and> Job_update parseFloat db job_id [] st = (Inl (BadRequestError (Text ''No data'')), st)
   \<and> (fst (Job_remove db job_id st) = Inl (NotFoundError (No_job job_id)))
      = (fst (db delete_sql [job_id] st) = Inr [])
   \<and> (db delete_sql [job_id] st = (Inr (job # rest), st1) \<longrightarrow>
        Job_remove db job_id st = (Inr (), st1))"
proof -
  have g1: "(fst (Job_get parseFloat db job_id st) = Inl (NotFoundError (No_job job_id)))
      = (fst (db get_sql [job_id] st) = Inr [])"
    unfolding Job_get_def by (rule first_row_not_found)
  have g2: "db get_sql [job_id] st = (Inr (job # rest), st1) \<longrightarrow>
        Job_get parseFloat db job_id st = (Inr (equity_parseFloat parseFloat job), st1)"
    by (simp add: Job_get_def)
  have u: "data \<noteq> [] \<longrightarrow>
        (fst (Job_update parseFloat db job_id data st) = Inl (NotFoundError (No_job job_id)))
          = (fst (db (update_querySql (join '', '' (sqlCols data update_jsToSql))
                        (''$'' @ string_of_nat (length data + 1)))
                     (Object_values data @ [job_id]) st) = Inr [])
        \<and> (db (update_querySql (join '', '' (sqlCols data update_jsToSql))
                  (''$'' @ string_of_nat (length data + 1)))
               (Object_values data @ [job_id]) st = (Inr (job # rest), st1) \<longrightarrow>
             Job_update parseFloat db job_id data st = (Inr (equity_parseFloat parseFloat job), st1))"
  proof (intro impI conjI)
    assume ne: "data \<noteq> []"
    show "(fst (Job_update parseFloat db job_id data st) = Inl (NotFoundError (No_job job_id)))
          = (fst (db (update_querySql (join '', '' (sqlCols data update_jsToSql))
                        (''$'' @ string_of_nat (length data + 1)))
                     (Object_values data @ [job_id]) st) = Inr [])"
      unfolding Job_update_nonempty [OF ne] by (rule first_row_not_found)
    assume "db (update_querySql (join '', '' (sqlCols data update_jsToSql))
                  (''$'' @ string_of_nat (length data + 1)))
               (Object_values data @ [job_id]) st = (Inr (job # rest), st1)"
    then show "Job_update parseFloat db job_id data st = (Inr (equity_parseFloat parseFloat job), st1)"
      by (simp add: Job_update_nonempty [OF ne] del: One_nat_def)
  qed
  have r1: "(fst (Job_remove db job_id st) = Inl (NotFoundError (No_job job_id)))
      = (fst (db delete_sql [job_id] st) = Inr [])"
    by (auto simp add: Job_remove_def split: prod.split sum.split list.split)
  have r2: "db delete_sql [job_id] st = (Inr (job # rest), st1) \<longrightarrow>
        Job_remove db job_id st = (Inr (), st1)"
    by (simp add: Job_remove_def)
  from g1 g2 u Job_update_empty [of parseFloat db job_id st] r1 r2 show ?thesis
    by (intro conjI)
qed

text \<open>A table with one job: id 1 is found, updated and removed, id 0 is not found.\<close>

theorem Job_not_found_witness:
  "Job_get demo_parseFloat table_db (JNum 1)
       [\<lparr>id' = JNum 1, title = JStr ''Job1'', salary = JNum 100, equity = JStr ''0'',
          company_handle = JStr ''c1''\<rparr>]
     = (Inr \<lparr>id' = JNum 1, title = JStr ''Job1'', salary = JNum 100, equity = JNum 0,
              company_handle = JStr ''c1''\<rparr>,
        [\<lparr>id' = JNum 1, title = JStr ''Job1'', salary = JNum 100, equity = JStr ''0'',
          company_handle = JStr ''c1''\<rparr>])
   \<and> fst (Job_get demo_parseFloat table_db (JNum 0)
       [\<lparr>id' = JNum 1, title = JStr ''Job1'', salary = JNum 100, equity = JStr ''0'',
          company_handle = JStr ''c1''\<rparr>]) = Inl (NotFoundError (No_job (JNum 0)))
   \<and> [(''title'', JStr ''Updated Job'')] \<noteq> ([] :: int js_object)
   \<and> Job_update demo_parseFloat
        (const_db [\<lparr>id' = JNum 1, title = JStr ''Updated Job'', salary = JNum 100,
                     equity = JStr ''0'', company_handle = JStr ''c1''\<rparr>])
        (JNum 1) [(''title'', JStr ''Updated Job'')] ()
     = (Inr \<lparr>id' = JNum 1, title = JStr ''Updated Job'', salary = JNum 100, equity = JNum 0,
              company_handle = JStr ''c1''\<rparr>, ())
   \<and> fst (Job_update demo_parseFloat table_db (JNum 0) [(''title'', JStr ''No Job'')]
       [\<lparr>id' = JNum 1, title = JStr ''Job1'', salary = JNum 100, equity = JStr ''0'',
          company_handle = JStr ''c1''\<rparr>]) = Inl (NotFoundError (No_job (JNum 0)))
   \<and> Job_remove table_db (JNum 1)
       [\<lparr>id' = JNum 1, title = JStr ''Job1'', salary = JNum 100, equity = JStr ''0'',
          company_handle = JStr ''c1''\<rparr>] = (Inr (), [])
   \<and> fst (Job_remove table_db (JNum 0)
       [\<lparr>id' = JNum 1, title = JStr ''Job1'', salary = JNum 100, equity = JStr ''0'',
          company_handle = JStr ''c1''\<rparr>]) = Inl (NotFoundError (No_job (JNum 0)))"
proof -
  let ?row = "\<lparr>id' = JNum (1::int), title = JStr ''Job1'', salary = JNum 100, equity = JStr ''0'',
          company_handle = JStr ''c1''\<rparr>"
  let ?upd = "\<lparr>id' = JNum (1::int), title = JStr ''Updated Job'', salary = JNum 100,
          equity = JStr ''0'', company_handle = JStr ''c1''\<rparr>"
  let ?d = "[(''title'', JStr ''Updated Job'')] :: int js_object"
  let ?e = "[(''title'', JStr ''No Job'')] :: int js_object"
  have ne: "?d \<noteq> []" "?e \<noteq> []" by simp_all
  have get1: "table_db get_sql [JNum 1] [?row] = (Inr (?row # []), [?row])"
    and get0: "fst (table_db get_sql [JNum 0] [?row]) = Inr []"
    and del1: "table_db delete_sql [JNum 1] [?row] = (Inr (?row # []), [])"
    and del0: "fst (table_db delete_sql [JNum 0] [?row]) = Inr []"
    by (simp_all add: store_eval)
  have upd1: "(const_db [?upd] :: (int, unit) db)
        (update_querySql (join '', '' (sqlCols ?d update_jsToSql)) (''$'' @ string_of_nat (length ?d + 1)))
        (Object_values ?d @ [JNum 1]) () = (Inr (?upd # []), ())"
    by (simp add: const_db_def)
  have upd0: "fst (table_db
        (update_querySql (join '', '' (sqlCols ?e update_jsToSql)) (''$'' @ string_of_nat (length ?e + 1)))
        (Object_values ?e @ [JNum 0]) [?row]) = Inr []"
    by (simp add: store_eval)
  note found = Job_not_found [where parseFloat = demo_parseFloat and db = table_db
      and job_id = "JNum 1" and st = "[?row]" and job = ?row and rest = "[]" and data = ?e
      and ?st1.0 = "[?row]"]
  note removed = Job_not_found [where parseFloat = demo_parseFloat and db = table_db
      and job_id = "JNum 1" and st = "[?row]" and job = ?row and rest = "[]" and data = ?e
      and ?st1.0 = "[]"]
  note missing = Job_not_found [where parseFloat = demo_parseFloat and db = table_db
      and job_id = "JNum 0" and st = "[?row]" and data = ?e]
  note updated = Job_not_found [where parseFloat = demo_parseFloat and db = "const_db [?upd]"
      and job_id = "JNum 1" and st = "()" and job = ?upd and rest = "[]" and ?st1.0 = "()" and data = ?d]
  have a: "Job_get demo_parseFloat table_db (JNum 1) [?row] = (Inr (equity_parseFloat demo_parseFloat ?row), [?row])"
    using found get1 by blast
  have b: "fst (Job_get demo_parseFloat table_db (JNum 0) [?row]) = Inl (NotFoundError (No_job (JNum 0)))"
    using missing get0 by blast
  have c: "Job_update demo_parseFloat (const_db [?upd]) (JNum 1) ?d ()
      = (Inr (equity_parseFloat demo_parseFloat ?upd), ())"
    using updated upd1 ne by blast
  have d: "fst (Job_update demo_parseFloat table_db (JNum 0) ?e [?row]) = Inl (NotFoundError (No_job (JNum 0)))"
    using missing upd0 ne by blast
  have e: "Job_remove table_db (JNum 1) [?row] = (Inr (), [])"
    using removed del1 by blast
  have f: "fst (Job_remove table_db (JNum 0) [?row]) = Inl (NotFoundError (No_job (JNum 0)))"
    using missing del0 by blast
  from a b c d e f show ?thesis
    by (simp add: store_eval)
qed

text \<open>
  C7 as stated fails for an empty payload: no row has id 0, and \<open>update(0, {})\<close> fails with
  \<open>BadRequestError\<close>, not with \<open>NotFoundError\<close>.
\<close>

theorem Job_update_no_data_counterexample:
  "fst (table_db get_sql [JNum 0] []) = Inr []
   \<and> Job_update demo_parseFloat table_db (JNum 0) [] []
       = (Inl (BadRequestError (Text ''No data'')), [])
   \<and> fst (Job_update demo_parseFloat table_db (JNum 0) [] []) \<noteq> Inl (NotFoundError (No_job (JNum 0)))"
  by (simp add: Job_update_empty store_eval)

text \<open>
  A key that the mapper of \<open>update\<close> inherits: \<open>Job.update(id, {constructor: "x"})\<close> sends
  the \<open>SET\<close> clause with the text of the inherited function as the column.
\<close>

lemma Job_update_inherited_key:
  "Job_update parseFloat db job_id [(''constructor'', JStr ''x'')] st =
     (case db (update_querySql ''\"function Object() { [native code] }\"=$1'' ''$2'')
              [JStr ''x'', job_id] st of
        (Inl e, st1) \<Rightarrow> (Inl (StoreError e), st1)
      | (Inr [], st1) \<Rightarrow> (Inl (NotFoundError (No_job job_id)), st1)
      | (Inr (job # rest), st1) \<Rightarrow> (Inr (equity_parseFloat parseFloat job), st1))"
proof -
  let ?d = "[(''constructor'', JStr ''x'')] :: 'a js_object"
  have cols: "join '', '' (sqlCols ?d update_jsToSql) = ''\"function Object() { [native code] }\"=$1''"
    by (simp add: sql_eval update_jsToSql_def)
  have vals: "Object_values ?d = [JStr ''x'']"
    by (simp add: sql_eval)
  have idx: "''$'' @ string_of_nat (length ?d + 1) = ''$2''"
    by (simp add: string_of_nat_small)
  have ne: "?d \<noteq> []" by simp
  show ?thesis
    unfolding Job_update_nonempty [OF ne] cols vals idx by simp
qed

subsection \<open>Equity on the read paths of models/job.js\<close>

text \<open>
  On every read path of \<open>models/job.js\<close> (\<open>create\<close>, \<open>findAll\<close>, \<open>get\<close>, \<open>update\<close>) a row whose
  stored equity is not \<open>null\<close> is returned with its equity replaced by the number that
  \<open>parseFloat\<close> gives for it, and nothing else changed.
\<close>

theorem Job_equity_normalised:
  "(db duplicateCheck_sql [job.title data, company_handle data] st = (Inr [], st1)
      \<and> db insert_sql [job.title data, salary data, equity data, company_handle data] st1
          = (Inr (row # rest), st2)
      \<and> equity row \<noteq> JNull
     \<longrightarrow> Job_create parseFloat db data st
          = (Inr (row\<lparr>equity := JNum (parseFloat (equity row))\<rparr>), st2))
   \<and> (db (findAll_query f) (snd (findAll_where f)) st = (Inr rows, st1)
     \<longrightarrow> (\<exists>jobs. Job_findAll parseFloat db f st = (Inr jobs, st1)
            \<and> length jobs = length rows
            \<and> (\<forall>i < length rows. equity (rows ! i) \<noteq> JNull \<longrightarrow>
                  jobs ! i = (rows ! i)\<lparr>equity := JNum (parseFloat (equity (rows ! i)))\<rparr>)))
   \<and> (db get_sql [job_id] st = (Inr (row # rest), st1) \<and> equity row \<noteq> JNull
     \<longrightarrow> Job_get parseFloat db job_id st
          = (Inr (row\<lparr>equity := JNum (parseFloat (equity row))\<rparr>), st1))
   \<and> (upd \<noteq> []
      \<and> db (update_querySql (join '', '' (sqlCols upd update_jsToSql))
               (''$'' @ string_of_nat (length upd + 1)))
            (Object_values upd @ [job_id]) st = (Inr (row # rest), st1)
      \<and> equity row \<noteq> JNull
     \<longrightarrow> Job_update parseFloat db job_id upd st
          = (Inr (row\<lparr>equity := JNum (parseFloat (equity row))\<rparr>), st1))"
proof (intro conjI impI)
  assume "db duplicateCheck_sql [job.title data, company_handle data] st = (Inr [], st1)
      \<and> db insert_sql [job.title data, salary data, equity data, company_handle data] st1
          = (Inr (row # rest), st2)
      \<and> equity row \<noteq> JNull"
  then show "Job_create parseFloat db data st
          = (Inr (row\<lparr>equity := JNum (parseFloat (equity row))\<rparr>), st2)"
    by (simp add: Job_create_inserted equity_parseFloat_not_null)
next
  assume q: "db (findAll_query f) (snd (findAll_where f)) st = (Inr rows, st1)"
  have "Job_findAll parseFloat db f st = (Inr (map (equity_parseFloat parseFloat) rows), st1)
      \<and> length (map (equity_parseFloat parseFloat) rows) = length rows
      \<and> (\<forall>i < length rows. equity (rows ! i) \<noteq> JNull \<longrightarrow>
            map (equity_parseFloat parseFloat) rows ! i
              = (rows ! i)\<lparr>equity := JNum (parseFloat (equity (rows ! i)))\<rparr>)"
    using q by (simp add: Job_findAll_def equity_parseFloat_not_null)
  then show "\<exists>jobs. Job_findAll parseFloat db f st = (Inr jobs, st1)
            \<and> length jobs = length rows
            \<and> (\<forall>i < length rows. equity (rows ! i) \<noteq> JNull \<longrightarrow>
                  jobs ! i = (rows ! i)\<lparr>equity := JNum (parseFloat (equity (rows ! i)))\<rparr>)"
    by (rule exI)
next
  assume "db get_sql [job_id] st = (Inr (row # rest), st1) \<and> equity row \<noteq> JNull"
  then show "Job_get parseFloat db job_id st
          = (Inr (row\<lparr>equity := JNum (parseFloat (equity row))\<rparr>), st1)"
    by (simp add: Job_get_def equity_parseFloat_not_null)
next
  assume "upd \<noteq> []
      \<and> db (update_querySql (join '', '' (sqlCols upd update_jsToSql))
               (''$'' @ string_of_nat (length upd + 1)))
            (Object_values upd @ [job_id]) st = (Inr (row # rest), st1)
      \<and> equity row \<noteq> JNull"
  then show "Job_update parseFloat db job_id upd st
          = (Inr (row\<lparr>equity := JNum (parseFloat (equity row))\<rparr>), st1)"
    by (simp add: Job_update_nonempty equity_parseFloat_not_null del: One_nat_def)
qed

text \<open>The four paths on rows whose equity is the decimal text \<open>1\<close>; a \<open>null\<close> equity stays.\<close>

theorem Job_equity_normalised_witness:
  "Job_create demo_parseFloat table_db
       \<lparr>id' = JUndefined, title = JStr ''New Job'', salary = JNum 100000, equity = JStr ''1'',
         company_handle = JStr ''c1''\<rparr> []
     = (Inr \<lparr>id' = JNum 1, title = JStr ''New Job'', salary = JNum 100000, equity = JNum 1,
              company_handle = JStr ''c1''\<rparr>,
        [\<lparr>id' = JNum 1, title = JStr ''New Job'', salary = JNum 100000, equity = JStr ''1'',
           company_handle = JStr ''c1''\<rparr>])
   \<and> Job_findAll demo_parseFloat
        (const_db [\<lparr>id' = JNum 1, title = JStr ''Job1'', salary = JNum 100, equity = JStr ''1'',
                     company_handle = JStr ''c1''\<rparr>,
                   \<lparr>id' = JNum 2, title = JStr ''Job2'', salary = JNull, equity = JNull,
                     company_handle = JStr ''c2''\<rparr>]) no_filter ()
     = (Inr [\<lparr>id' = JNum 1, title = JStr ''Job1'', salary = JNum 100, equity = JNum 1,
               company_handle = JStr ''c1''\<rparr>,
             \<lparr>id' = JNum 2, title = JStr ''Job2'', salary = JNull, equity = JNull,
               company_handle = JStr ''c2''\<rparr>], ())
   \<and> Job_get demo_parseFloat table_db (JNum 1)
       [\<lparr>id' = JNum 1, title = JStr ''New Job'', salary = JNum 100000, equity = JStr ''1'',
           company_handle = JStr ''c1''\<rparr>]
     = (Inr \<lparr>id' = JNum 1, title = JStr ''New Job'', salary = JNum 100000, equity = JNum 1,
              company_handle = JStr ''c1''\<rparr>,
        [\<lparr>id' = JNum 1, title = JStr ''New Job'', salary = JNum 100000, equity = JStr ''1'',
           company_handle = JStr ''c1''\<rparr>])
   \<and> Job_update demo_parseFloat
        (const_db [\<lparr>id' = JNum 1, title = JStr ''Job1'', salary = JNum 100, equity = JStr ''1'',
                     company_handle = JStr ''c1''\<rparr>])
        (JNum 1) [(''salary'', JNum 100)] ()
     = (Inr \<lparr>id' = JNum 1, title = JStr ''Job1'', salary = JNum 100, equity = JNum 1,
              company_handle = JStr ''c1''\<rparr>, ())"
proof -
  let ?data = "\<lparr>id' = JUndefined :: int jsval, title = JStr ''New Job'', salary = JNum 100000,
         equity = JStr ''1'', company_handle = JStr ''c1''\<rparr>"
  let ?row = "\<lparr>id' = JNum (1::int), title = JStr ''New Job'', salary = JNum 100000,
         equity = JStr ''1'', company_handle = JStr ''c1''\<rparr>"
  let ?r1 = "\<lparr>id' = JNum (1::int), title = JStr ''Job1'', salary = JNum 100, equity = JStr ''1'',
         company_handle = JStr ''c1''\<rparr>"
  let ?r2 = "\<lparr>id' = JNum (2::int), title = JStr ''Job2'', salary = JNull, equity = JNull,
         company_handle = JStr ''c2''\<rparr>"
  let ?u = "[(''salary'', JNum 100)] :: int js_object"
  have chk: "table_db duplicateCheck_sql [job.title ?data, company_handle ?data] [] = (Inr [], [])"
    and ins: "table_db insert_sql [job.title ?data, salary ?data, equity ?data, company_handle ?data] []
      = (Inr (?row # []), [?row])"
    and get: "table_db get_sql [JNum 1] [?row] = (Inr (?row # []), [?row])"
    by (simp_all add: store_eval)
  have all: "(const_db [?r1, ?r2] :: (int, unit) db)
      (findAll_query no_filter) (snd (findAll_where no_filter)) () = (Inr [?r1, ?r2], ())"
    and upd: "(const_db [?r1] :: (int, unit) db)
        (update_querySql (join '', '' (sqlCols ?u update_jsToSql)) (''$'' @ string_of_nat (length ?u + 1)))
        (Object_values ?u @ [JNum 1]) () = (Inr (?r1 # []), ())"
    by (simp_all add: const_db_def)
  have nn: "equity ?row \<noteq> JNull" "equity ?r1 \<noteq> JNull" "?u \<noteq> []" by simp_all
  have a: "Job_create demo_parseFloat table_db ?data []
      = (Inr (?row\<lparr>equity := JNum (demo_parseFloat (equity ?row))\<rparr>), [?row])"
    using Job_equity_normalised [where db = table_db and data = ?data and st = "[]" and ?st1.0 = "[]"
        and row = ?row and rest = "[]" and ?st2.0 = "[?row]" and parseFloat = demo_parseFloat]
      chk ins nn by blast
  have c: "Job_get demo_parseFloat table_db (JNum 1) [?row]
      = (Inr (?row\<lparr>equity := JNum (demo_parseFloat (equity ?row))\<rparr>), [?row])"
    using Job_equity_normalised [where db = table_db and job_id = "JNum 1" and st = "[?row]"
        and ?st1.0 = "[?row]" and row = ?row and rest = "[]" and parseFloat = demo_parseFloat]
      get nn by blast
  have d: "Job_update demo_parseFloat (const_db [?r1]) (JNum 1) ?u ()
      = (Inr (?r1\<lparr>equity := JNum (demo_parseFloat (equity ?r1))\<rparr>), ())"
    using Job_equity_normalised [where db = "const_db [?r1]" and job_id = "JNum 1" and st = "()"
        and ?st1.0 = "()" and row = ?r1 and rest = "[]" and parseFloat = demo_parseFloat and upd = ?u]
      upd nn by blast
  obtain jobs where b: "Job_findAll demo_parseFloat (const_db [?r1, ?r2]) no_filter () = (Inr jobs, ())"
    using Job_equity_normalised [where db = "const_db [?r1, ?r2]" and f = no_filter and st = "()"
        and ?st1.0 = "()" and rows = "[?r1, ?r2]" and parseFloat = demo_parseFloat]
      all by blast
  have b': "Job_findAll demo_parseFloat (const_db [?r1, ?r2]) no_filter ()
      = (Inr [?r1\<lparr>equity := JNum 1\<rparr>, ?r2], ())"
    by (simp add: Job_findAll_def store_eval)
  from a b b' c d show ?thesis
    by (simp add: store_eval)
qed

subsection \<open>Equity in the second copy\<close>

text \<open>The second copy returns every row as the store gave it.\<close>

lemma Job_create_unconverted_row:
  "db duplicateCheck_sql [job.title data, company_handle data] st = (Inr [], st1) \<Longrightarrow>
   db insert_sql [job.title data, salary data, equity data, company_handle data] st1
     = (Inr (row # rest), st2) \<Longrightarrow>
   Job_create_unconverted db data st = (Inr (Some row), st2)"
  by (simp add: Job_create_unconverted_def)

lemma Job_findAll_unconverted_rows:
  "db (findAll_query f) (snd (findAll_where f)) st = (Inr rows, st1) \<Longrightarrow>
   Job_findAll_unconverted db f st = (Inr rows, st1)"
  by (simp add: Job_findAll_unconverted_def)

lemma Job_get_unconverted_row:
  "db get_sql [job_id] st = (Inr (row # rest), st1) \<Longrightarrow>
   Job_get_unconverted db job_id st = (Inr row, st1)"
  by (simp add: Job_get_unconverted_def)

lemma Job_update_unconverted_row:
  "upd \<noteq> [] \<Longrightarrow>
   db (update_querySql (join '', '' (sqlCols upd update_jsToSql))
         (''$'' @ string_of_nat (length upd + 1)))
      (Object_values upd @ [job_id]) st = (Inr (row # rest), st1) \<Longrightarrow>
   Job_update_unconverted db job_id upd st = (Inr row, st1)"
  by (simp add: Job_update_unconverted_def sqlForPartialUpdate_Inr length_Object_values Let_def
      del: One_nat_def)

text \<open>
  On the same store and the same row \<open>models/job.js\<close> converts: for every \<open>parseFloat\<close>,
  \<open>get\<close> returns the number that \<open>parseFloat\<close> gives for the stored text.
\<close>

lemma Job_get_converted_example:
  "Job_get parseFloat table_db (JNum 1)
       [\<lparr>id' = JNum 1, title = JStr ''Job2'', salary = JNum 200, equity = JStr ''0.1'',
          company_handle = JStr ''c2''\<rparr>]
     = (Inr \<lparr>id' = JNum 1, title = JStr ''Job2'', salary = JNum 200,
              equity = JNum (parseFloat (JStr ''0.1'')), company_handle = JStr ''c2''\<rparr>,
        [\<lparr>id' = JNum 1, title = JStr ''Job2'', salary = JNum 200, equity = JStr ''0.1'',
          company_handle = JStr ''c2''\<rparr>])"
  by (simp add: Job_get_def table_db_def duplicateCheck_sql_def insert_sql_def get_sql_def
      equity_parseFloat_def)

text \<open>
  C8. The claim is that every Job read path (\<open>create\<close>, \<open>findAll\<close>, \<open>get\<close>, \<open>update\<close>) returns a
  stored equity that is not \<open>null\<close> as a number, as \<open>models/job.js\<close> does on all four paths
  and as the tests of the model expect. The second copy of the model does not: against a
  store whose job has the equity text \<open>0.1\<close>, its \<open>get\<close>, \<open>create\<close>, \<open>findAll\<close> and \<open>update\<close>
  all return the record with the equity still the text \<open>0.1\<close>.
\<close>

theorem Job_unconverted_equity:
  "Job_get_unconverted table_db (JNum 1)
       [\<lparr>id' = JNum 1, title = JStr ''Job2'', salary = JNum 200, equity = JStr ''0.1'',
          company_handle = JStr ''c2''\<rparr>]
     = (Inr \<lparr>id' = JNum 1, title = JStr ''Job2'', salary = JNum 200, equity = JStr ''0.1'',
              company_handle = JStr ''c2''\<rparr>,
        [\<lparr>id' = JNum 1, title = JStr ''Job2'', salary = JNum 200, equity = JStr ''0.1'',
          company_handle = JStr ''c2''\<rparr>])
   \<and> Job_create_unconverted table_db
       \<lparr>id' = JUndefined, title = JStr ''Job2'', salary = JNum 200, equity = JStr ''0.1'',
         company_handle = JStr ''c2''\<rparr> []
     = (Inr (Some \<lparr>id' = JNum 1, title = JStr ''Job2'', salary = JNum 200, equity = JStr ''0.1'',
                    company_handle = JStr ''c2''\<rparr>),
        [\<lparr>id' = JNum 1, title = JStr ''Job2'', salary = JNum 200, equity = JStr ''0.1'',
          company_handle = JStr ''c2''\<rparr>])
   \<and> Job_findAll_unconverted
        (const_db [\<lparr>id' = JNum (1::int), title = JStr ''Job2'', salary = JNum 200,
                     equity = JStr ''0.1'', company_handle = JStr ''c2''\<rparr>]) no_filter ()
     = (Inr [\<lparr>id' = JNum 1, title = JStr ''Job2'', salary = JNum 200, equity = JStr ''0.1'',
               company_handle = JStr ''c2''\<rparr>], ())
   \<and> Job_update_unconverted
        (const_db [\<lparr>id' = JNum (1::int), title = JStr ''Job2'', salary = JNum 200,
                     equity = JStr ''0.1'', company_handle = JStr ''c2''\<rparr>])
        (JNum 1) [(''salary'', JNum 200)] ()
     = (Inr \<lparr>id' = JNum 1, title = JStr ''Job2'', salary = JNum 200, equity = JStr ''0.1'',
              company_handle = JStr ''c2''\<rparr>, ())"
proof (intro conjI)
  let ?row = "\<lparr>id' = JNum (1::int), title = JStr ''Job2'', salary = JNum 200,
      equity = JStr ''0.1'', company_handle = JStr ''c2''\<rparr>"
  let ?data = "\<lparr>id' = JUndefined :: int jsval, title = JStr ''Job2'', salary = JNum 200,
      equity = JStr ''0.1'', company_handle = JStr ''c2''\<rparr>"
  let ?u = "[(''salary'', JNum 200)] :: int js_object"
  have get: "table_db get_sql [JNum 1] [?row] = (Inr (?row # []), [?row])"
    and chk: "table_db duplicateCheck_sql [job.title ?data, company_handle ?data] [] = (Inr [], [])"
    and ins: "table_db insert_sql [job.title ?data, salary ?data, equity ?data, company_handle ?data] []
      = (Inr (?row # []), [?row])"
    by (simp_all add: store_eval)
  have all: "(const_db [?row] :: (int, unit) db)
      (findAll_query no_filter) (snd (findAll_where no_filter)) () = (Inr [?row], ())"
    and upd: "(const_db [?row] :: (int, unit) db)
        (update_querySql (join '', '' (sqlCols ?u update_jsToSql)) (''$'' @ string_of_nat (length ?u + 1)))
        (Object_values ?u @ [JNum 1]) () = (Inr (?row # []), ())"
    by (simp_all add: const_db_def)
  show "Job_get_unconverted table_db (JNum 1) [?row] = (Inr ?row, [?row])"
    using get by (rule Job_get_unconverted_row)
  show "Job_create_unconverted table_db ?data [] = (Inr (Some ?row), [?row])"
    using chk ins by (rule Job_create_unconverted_row)
  show "Job_findAll_unconverted (const_db [?row]) no_filter () = (Inr [?row], ())"
    using all by (rule Job_findAll_unconverted_rows)
  have "?u \<noteq> []" by simp
  then show "Job_update_unconverted (const_db [?row]) (JNum 1) ?u () = (Inr ?row, ())"
    using upd by (rule Job_update_unconverted_row)
qed

section \<open>Properties of the company list request\<close>

text \<open>
  C9. When both \<open>minEmployees\<close> and \<open>maxEmployees\<close> are supplied and the minimum exceeds the
  maximum, the company list request fails with the InvalidInput error, whatever query
  construction and store access would have done: they do not run, and the store's state
  is unchanged.
\<close>

theorem Company_findAll_range:
  assumes "minEmployees f = Some lo" and "maxEmployees f = Some hi" and "lo > hi"
  shows "Company_findAll construct_and_query f st
    = (Inl (BadRequestError (Text ''minEmployees cannot be greater than maxEmployees.'')), st)"
  using assms by (simp add: Company_findAll_def)

text \<open>The example of the specification, with a continuation that would have changed the state.\<close>

theorem Company_findAll_range_witness:
  "minEmployees \<lparr>name = None, minEmployees = Some 100, maxEmployees = Some 50\<rparr> = Some 100
   \<and> maxEmployees \<lparr>name = None, minEmployees = Some 100, maxEmployees = Some 50\<rparr> = Some 50
   \<and> (100::int) > 50
   \<and> Company_findAll (\<lambda>f st. (Inr [f], Suc st))
        \<lparr>name = None, minEmployees = Some 100, maxEmployees = Some 50\<rparr> (0::nat)
      = (Inl (BadRequestError (Text ''minEmployees cannot be greater than maxEmployees.'')
              :: int error), 0)"
  using Company_findAll_range [of "\<lparr>name = None, minEmployees = Some 100, maxEmployees = Some 50\<rparr>"
      100 50 "\<lambda>f st. (Inr [f], Suc st)" "0::nat"]
  by simp

end
